theory Spec2Isabelle
  imports Main "HOL-Library.Word" "HOL-Library.Sublist"
begin

unbundle bit_operations_syntax

section \<open>Values of the host platform\<close>

text \<open>
  A duration is Go's \<^verbatim>\<open>time.Duration\<close>, a 64-bit count of nanoseconds;
  \<^verbatim>\<open>time.Second\<close> is the standard library's constant of 10^9 nanoseconds.
\<close>

type_synonym Duration = "64 word"

definition Second :: Duration where
  "Second = 1000000000"

text \<open>
  Handlers, writers, round-trippers, redirect policies and cookie jars are opaque
  collaborators: the wrappers only store them. Each is an identity; the two standard
  streams are named. An interface or function value that may be nil is an option.
\<close>

datatype Handler = Handler nat

datatype Writer = os_Stdout | os_Stderr | Writer nat

datatype RoundTripper = RoundTripper nat

datatype CheckRedirectFunc = CheckRedirectFunc nat

datatype CookieJar = CookieJar nat

text \<open>A non-nil Go error is the text its \<^verbatim>\<open>Error()\<close> method returns; nil is \<open>None\<close>.\<close>

datatype error = New_error (Error: string)

section \<open>Package server\<close>

subsection \<open>Constants\<close>

definition ReadTimeout :: Duration where
  "ReadTimeout = 5 * Second"

definition WriteTimeout :: Duration where
  "WriteTimeout = 10 * Second"

definition ShutdownTimeout :: Duration where
  "ShutdownTimeout = 5 * Second"

definition MaxHeaderBytes :: int where
  "MaxHeaderBytes = push_bit 20 1"

subsection \<open>The supervisor\<close>

text \<open>The fields of \<^verbatim>\<open>http.Server\<close> that the wrapper sets.\<close>

record http_Server =
  http_Addr :: string
  http_Handler :: "Handler option"
  http_ReadTimeout :: Duration
  http_WriteTimeout :: Duration
  http_MaxHeaderBytes :: int

record Server =
  addr :: string
  server :: http_Server
  shutdown :: Duration
  out :: Writer
  err :: Writer

text \<open>
  An option receives the supervisor and returns the one to go on with. The source passes
  a pointer that each recognized option updates in place and returns; with one owner of
  the pointer that is the function from the old value to the new one.
\<close>

type_synonym server_Option = "Server \<Rightarrow> Server"

definition WithReadTimeout :: "Duration \<Rightarrow> server_Option" where
  "WithReadTimeout to = (\<lambda>s. s\<lparr>server := (server s)\<lparr>http_ReadTimeout := to\<rparr>\<rparr>)"

definition WithWriteTimeout :: "Duration \<Rightarrow> server_Option" where
  "WithWriteTimeout to = (\<lambda>s. s\<lparr>server := (server s)\<lparr>http_WriteTimeout := to\<rparr>\<rparr>)"

definition WithShutdown :: "Duration \<Rightarrow> server_Option" where
  "WithShutdown to = (\<lambda>s. s\<lparr>shutdown := to\<rparr>)"

definition WithMaxHeaderBytes :: "int \<Rightarrow> server_Option" where
  "WithMaxHeaderBytes n = (\<lambda>s. s\<lparr>server := (server s)\<lparr>http_MaxHeaderBytes := n\<rparr>\<rparr>)"

definition WithOutputWriter :: "Writer \<Rightarrow> server_Option" where
  "WithOutputWriter w = (\<lambda>s. s\<lparr>out := w\<rparr>)"

definition WithErrorWriter :: "Writer \<Rightarrow> server_Option" where
  "WithErrorWriter w = (\<lambda>s. s\<lparr>err := w\<rparr>)"

text \<open>The loop \<^verbatim>\<open>for _, opt := range opts { s = opt(s) }\<close>, first option first.\<close>

fun apply_opts :: "('a \<Rightarrow> 'a) list \<Rightarrow> 'a \<Rightarrow> 'a" where
  "apply_opts [] s = s"
| "apply_opts (opt # opts) s = apply_opts opts (opt s)"

definition server_New :: "string \<Rightarrow> Handler option \<Rightarrow> server_Option list \<Rightarrow> Server" where
  "server_New a h opts =
     apply_opts opts
       \<lparr>addr = a,
        server = \<lparr>http_Addr = a, http_Handler = h, http_ReadTimeout = ReadTimeout,
                  http_WriteTimeout = WriteTimeout, http_MaxHeaderBytes = MaxHeaderBytes\<rparr>,
        shutdown = ShutdownTimeout,
        out = os_Stdout,
        err = os_Stderr\<rparr>"

subsection \<open>The recognized options\<close>

inductive recognized :: "server_Option \<Rightarrow> bool" where
  read_timeout: "recognized (WithReadTimeout to)"
| write_timeout: "recognized (WithWriteTimeout to)"
| shutdown_grace: "recognized (WithShutdown to)"
| max_header_bytes: "recognized (WithMaxHeaderBytes n)"
| output_writer: "recognized (WithOutputWriter w)"
| error_writer: "recognized (WithErrorWriter w)"

text \<open>An option keeps a field, read by \<open>g\<close>, when it returns it as it found it.\<close>

definition keeps :: "('a \<Rightarrow> 'b) \<Rightarrow> ('a \<Rightarrow> 'a) \<Rightarrow> bool" where
  "keeps g opt = (\<forall>s. g (opt s) = g s)"

subsection \<open>The run call\<close>

text \<open>
  The run call and the serve unit it starts are two threads of control. Each is modelled
  by the calls it makes, in program order, and the run call also by how it ends. What the
  collaborators answer is the world the run happens in: whether a signal is ever received,
  whether the engine's serve loop returns and with which error, and the errors (or nil) of
  the engine's \<^verbatim>\<open>Shutdown\<close> and \<^verbatim>\<open>Close\<close>.
\<close>

datatype 'a completion = Blocks | Returns 'a

datatype Signal = os_Interrupt | SIGINT | SIGTERM

record World =
  signal :: "Signal completion"
  http_ListenAndServe :: "error completion"
  http_Shutdown :: "error option"
  http_Close :: "error option"

text \<open>The operands of a formatted write: the address, the grace period, an error.\<close>

datatype operand = Str string | Dur Duration | Err error

text \<open>
  \<open>Fprintf w f as\<close> is the call \<^verbatim>\<open>fmt.Fprintf(w, f, as...)\<close>: the writer, the
  format and the operands, as the source passes them.
\<close>

datatype event =
    log_Trace string
  | wg_Add nat
  | Go
  | Fprintf Writer string "operand list"
  | server_ListenAndServe
  | wg_Done
  | signal_Notify "Signal list"
  | Receive
  | context_WithTimeout Duration
  | server_Shutdown
  | server_Close
  | cancel
  | wg_Wait

record Run =
  events :: "event list"
  result :: "error option completion"

text \<open>
  What \<^verbatim>\<open>fmt.Fprintf\<close> writes for a format with no operands, as the documentation of
  the standard library's package \<^verbatim>\<open>fmt\<close> gives it: text is copied, \<^verbatim>\<open>%%\<close> is a
  percent sign, a verb that finds no operand is written as \<^verbatim>\<open>%!verb(MISSING)\<close>
  (\<^verbatim>\<open>Printf("hi%d")\<close> writes \<^verbatim>\<open>hi%!d(MISSING)\<close>), and a percent sign that ends the
  format as \<^verbatim>\<open>%!(NOVERB)\<close>. A percent sign followed by a flag, a width, a precision,
  an argument index or a byte outside ASCII is not modelled: the result is \<open>None\<close>.
\<close>

definition directive_char :: "char \<Rightarrow> bool" where
  "directive_char c \<longleftrightarrow>
     c \<in> set ''#0+- 123456789*.['' \<or> 128 \<le> (of_char c :: nat)"

fun Sprintf_no_operands :: "string \<Rightarrow> string option" where
  "Sprintf_no_operands [] = Some []"
| "Sprintf_no_operands [c] = (if c = CHR ''%'' then Some ''%!(NOVERB)'' else Some [c])"
| "Sprintf_no_operands (c # v # rest) =
     (if c \<noteq> CHR ''%'' then map_option ((#) c) (Sprintf_no_operands (v # rest))
      else if v = CHR ''%'' then map_option ((#) CHR ''%'') (Sprintf_no_operands rest)
      else if directive_char v then None
      else map_option (\<lambda>r. ''%!'' @ [v] @ ''(MISSING)'' @ r) (Sprintf_no_operands rest))"

text \<open>
  The serve unit: the function literal started by \<^verbatim>\<open>go\<close>. The deferred
  \<^verbatim>\<open>wg.Done()\<close> runs when the literal returns, which it does only if the serve loop
  does.
\<close>

definition serve_unit :: "Server \<Rightarrow> World \<Rightarrow> event list" where
  "serve_unit s w =
     [Fprintf (out s) ''listening on %s...\<newline>'' [Str (addr s)], server_ListenAndServe]
     @ (case http_ListenAndServe w of
          Blocks \<Rightarrow> []
        | Returns e \<Rightarrow> [Fprintf (err s) (Error e) [], wg_Done])"

text \<open>
  \<^verbatim>\<open>wg.Wait()\<close> returns once the serve unit has called \<^verbatim>\<open>wg.Done()\<close>; the
  run call then returns nil, running the deferred \<^verbatim>\<open>cancel()\<close>.
\<close>

definition wait_and_return :: "World \<Rightarrow> event list \<Rightarrow> Run" where
  "wait_and_return w es =
     (case http_ListenAndServe w of
        Blocks \<Rightarrow> \<lparr>events = es @ [wg_Wait], result = Blocks\<rparr>
      | Returns _ \<Rightarrow> \<lparr>events = es @ [wg_Wait, cancel], result = Returns None\<rparr>)"

definition ListenAndServe :: "Server \<Rightarrow> World \<Rightarrow> Run" where
  "ListenAndServe s w =
     (let started = [log_Trace ''f4/http/server/Server.ListenAndServe'', wg_Add 1, Go,
                     signal_Notify [os_Interrupt, SIGINT, SIGTERM], Receive]
      in case signal w of
           Blocks \<Rightarrow> \<lparr>events = started, result = Blocks\<rparr>
         | Returns _ \<Rightarrow>
             (let draining = started @ [context_WithTimeout (shutdown s), server_Shutdown]
              in case http_Shutdown w of
                   None \<Rightarrow> wait_and_return w draining
                 | Some e \<Rightarrow>
                     (let closing = draining
                            @ [Fprintf (err s) ''shutdown timed out after %s: %v''
                                 [Dur (shutdown s), Err e],
                               server_Close]
                      in case http_Close w of
                           Some e' \<Rightarrow>
                             \<lparr>events = closing
                                 @ [Fprintf (err s) ''error killing server: %v'' [Err e'],
                                    cancel],
                              result = Returns (Some e')\<rparr>
                         | None \<Rightarrow> wait_and_return w closing)))"

section \<open>Package client\<close>

definition DefaultTimeout :: Duration where
  "DefaultTimeout = 5 * Second"

text \<open>The fields of \<^verbatim>\<open>http.Client\<close>; the wrapper embeds a pointer to one.\<close>

record http_Client =
  Transport :: "RoundTripper option"
  CheckRedirect :: "CheckRedirectFunc option"
  Jar :: "CookieJar option"
  Timeout :: Duration

record Client =
  Client :: http_Client

type_synonym client_Option = "Client \<Rightarrow> Client"

definition WithTimeout :: "Duration \<Rightarrow> client_Option" where
  "WithTimeout to = (\<lambda>c. c\<lparr>Client := (Client c)\<lparr>Timeout := to\<rparr>\<rparr>)"

definition WithTransport :: "RoundTripper option \<Rightarrow> client_Option" where
  "WithTransport t = (\<lambda>c. c\<lparr>Client := (Client c)\<lparr>Transport := t\<rparr>\<rparr>)"

definition WithCheckRedirect :: "CheckRedirectFunc option \<Rightarrow> client_Option" where
  "WithCheckRedirect f = (\<lambda>c. c\<lparr>Client := (Client c)\<lparr>CheckRedirect := f\<rparr>\<rparr>)"

definition WithJar :: "CookieJar option \<Rightarrow> client_Option" where
  "WithJar j = (\<lambda>c. c\<lparr>Client := (Client c)\<lparr>Jar := j\<rparr>\<rparr>)"

definition client_New :: "client_Option list \<Rightarrow> Client" where
  "client_New opts =
     apply_opts opts
       \<lparr>Client = \<lparr>Transport = None, CheckRedirect = None, Jar = None,
                  Timeout = DefaultTimeout\<rparr>\<rparr>"

section \<open>Construction\<close>

subsection \<open>The loop over the options\<close>

lemma apply_opts_append: "apply_opts (xs @ ys) s = apply_opts ys (apply_opts xs s)"
  by (induction xs arbitrary: s) simp_all

lemma apply_opts_keeps:
  "\<forall>opt\<in>set opts. keeps g opt \<Longrightarrow> g (apply_opts opts s) = g s"
  by (induction opts arbitrary: s) (simp_all add: keeps_def)

lemma last_write_wins:
  assumes set: "\<And>s. g (W vb s) = vb"
    and rest: "\<forall>opt\<in>set zs. keeps g opt"
  shows "g (apply_opts (xs @ W va # ys @ W vb # zs) s) = vb"
proof -
  have "apply_opts (xs @ W va # ys @ W vb # zs) s
          = apply_opts zs (W vb (apply_opts ys (W va (apply_opts xs s))))"
    by (simp add: apply_opts_append)
  then show ?thesis
    using apply_opts_keeps [OF rest] set by simp
qed

lemma swap_adjacent:
  "(\<And>s. A (B s) = B (A s)) \<Longrightarrow>
     apply_opts (xs @ [A, B] @ ys) s = apply_opts (xs @ [B, A] @ ys) s"
  by (simp add: apply_opts_append)

lemma apply_opts_recognized:
  "\<forall>opt\<in>set opts. recognized opt \<Longrightarrow>
     addr (apply_opts opts s) = addr s
     \<and> http_Addr (server (apply_opts opts s)) = http_Addr (server s)
     \<and> http_Handler (server (apply_opts opts s)) = http_Handler (server s)"
proof (induction opts arbitrary: s)
  case Nil
  show ?case by simp
next
  case (Cons opt opts)
  from Cons.prems have "recognized opt" by simp
  then have "addr (opt s) = addr s \<and> http_Addr (server (opt s)) = http_Addr (server s)
      \<and> http_Handler (server (opt s)) = http_Handler (server s)"
    by cases
      (simp_all add: WithReadTimeout_def WithWriteTimeout_def WithShutdown_def
         WithMaxHeaderBytes_def WithOutputWriter_def WithErrorWriter_def)
  with Cons.IH [of "opt s"] Cons.prems show ?case by simp
qed

subsection \<open>Defaults and single options\<close>

text \<open>
  C6: a supervisor constructed with no options has read timeout 5 s, write timeout 10 s,
  max header bytes 1 MiB (\<open>2 ^ 20 = 1048576\<close>) and shutdown grace period 5 s, the
  durations counted in nanoseconds.
\<close>

theorem server_New_defaults:
  "http_ReadTimeout (server (server_New a h [])) = 5 * Second
   \<and> http_ReadTimeout (server (server_New a h [])) = 5000000000
   \<and> http_WriteTimeout (server (server_New a h [])) = 10 * Second
   \<and> http_WriteTimeout (server (server_New a h [])) = 10000000000
   \<and> http_MaxHeaderBytes (server (server_New a h [])) = 2 ^ 20
   \<and> http_MaxHeaderBytes (server (server_New a h [])) = 1048576
   \<and> shutdown (server_New a h []) = 5 * Second
   \<and> shutdown (server_New a h []) = 5000000000"
  by (simp add: server_New_def ReadTimeout_def WriteTimeout_def MaxHeaderBytes_def
      ShutdownTimeout_def Second_def)

text \<open>
  C7: for every duration \<open>T\<close>, the supervisor constructed with the single option
  \<open>WithReadTimeout T\<close> has read timeout \<open>T\<close> in place of the default.
\<close>

theorem server_New_WithReadTimeout:
  "http_ReadTimeout (server (server_New a h [WithReadTimeout T])) = T"
  by (simp add: server_New_def WithReadTimeout_def)

text \<open>
  C8: a client constructed with no options has timeout 5 s; constructed with the single
  option \<open>WithTimeout T\<close> it has timeout \<open>T\<close>, for every duration \<open>T\<close>.
\<close>

theorem client_New_timeout:
  "Timeout (Client (client_New [])) = 5 * Second
   \<and> Timeout (Client (client_New [])) = 5000000000
   \<and> Timeout (Client (client_New [WithTimeout T])) = T"
  by (simp add: client_New_def DefaultTimeout_def Second_def WithTimeout_def)

subsection \<open>Order of the options\<close>

text \<open>
  C5: options are applied in the order supplied and the later write to a field wins. For
  each field of the supervisor and of the client: when two options set the field, first to
  one value and later to another, among any options \<open>xs\<close> before them and \<open>ys\<close>
  between them (which may write the same field too), and followed by options \<open>zs\<close> that
  leave the field as they find it, the constructed value holds the later value.
\<close>

theorem later_option_wins:
  fixes da db :: Duration and na nb :: int and wa wb :: Writer
    and xs ys zs :: "server_Option list" and xs' ys' zs' :: "client_Option list"
  shows
  "((\<forall>opt\<in>set zs. keeps (\<lambda>s. http_ReadTimeout (server s)) opt) \<longrightarrow>
      http_ReadTimeout (server (server_New a h
        (xs @ WithReadTimeout da # ys @ WithReadTimeout db # zs))) = db)
   \<and> ((\<forall>opt\<in>set zs. keeps (\<lambda>s. http_WriteTimeout (server s)) opt) \<longrightarrow>
      http_WriteTimeout (server (server_New a h
        (xs @ WithWriteTimeout da # ys @ WithWriteTimeout db # zs))) = db)
   \<and> ((\<forall>opt\<in>set zs. keeps shutdown opt) \<longrightarrow>
      shutdown (server_New a h (xs @ WithShutdown da # ys @ WithShutdown db # zs)) = db)
   \<and> ((\<forall>opt\<in>set zs. keeps (\<lambda>s. http_MaxHeaderBytes (server s)) opt) \<longrightarrow>
      http_MaxHeaderBytes (server (server_New a h
        (xs @ WithMaxHeaderBytes na # ys @ WithMaxHeaderBytes nb # zs))) = nb)
   \<and> ((\<forall>opt\<in>set zs. keeps out opt) \<longrightarrow>
      out (server_New a h (xs @ WithOutputWriter wa # ys @ WithOutputWriter wb # zs)) = wb)
   \<and> ((\<forall>opt\<in>set zs. keeps err opt) \<longrightarrow>
      err (server_New a h (xs @ WithErrorWriter wa # ys @ WithErrorWriter wb # zs)) = wb)
   \<and> ((\<forall>opt\<in>set zs'. keeps (\<lambda>c. Timeout (Client c)) opt) \<longrightarrow>
      Timeout (Client (client_New (xs' @ WithTimeout da # ys' @ WithTimeout db # zs'))) = db)
   \<and> ((\<forall>opt\<in>set zs'. keeps (\<lambda>c. Transport (Client c)) opt) \<longrightarrow>
      Transport (Client (client_New (xs' @ WithTransport ta # ys' @ WithTransport tb # zs')))
        = tb)
   \<and> ((\<forall>opt\<in>set zs'. keeps (\<lambda>c. CheckRedirect (Client c)) opt) \<longrightarrow>
      CheckRedirect (Client (client_New
        (xs' @ WithCheckRedirect fa # ys' @ WithCheckRedirect fb # zs'))) = fb)
   \<and> ((\<forall>opt\<in>set zs'. keeps (\<lambda>c. Jar (Client c)) opt) \<longrightarrow>
      Jar (Client (client_New (xs' @ WithJar ja # ys' @ WithJar jb # zs'))) = jb)"
  unfolding server_New_def client_New_def
  by (intro conjI impI last_write_wins [where g = "\<lambda>s. http_ReadTimeout (server s)"]
        last_write_wins [where g = "\<lambda>s. http_WriteTimeout (server s)"]
        last_write_wins [where g = "\<lambda>s. http_MaxHeaderBytes (server s)"]
        last_write_wins [where g = shutdown] last_write_wins [where g = out]
        last_write_wins [where g = err]
        last_write_wins [where g = "\<lambda>c. Timeout (Client c)"]
        last_write_wins [where g = "\<lambda>c. Transport (Client c)"]
        last_write_wins [where g = "\<lambda>c. CheckRedirect (Client c)"]
        last_write_wins [where g = "\<lambda>c. Jar (Client c)"])
     (simp_all add: WithReadTimeout_def WithWriteTimeout_def WithShutdown_def
        WithMaxHeaderBytes_def WithOutputWriter_def WithErrorWriter_def WithTimeout_def
        WithTransport_def WithCheckRedirect_def WithJar_def)

theorem later_option_wins_witness:
  "list_all (keeps (\<lambda>s. http_ReadTimeout (server s)))
     [WithWriteTimeout 7, WithErrorWriter (Writer 2)]
   \<and> http_ReadTimeout (server (server_New '':8080'' None
        ([WithShutdown 9] @ WithReadTimeout 1 # [WithReadTimeout 4, WithOutputWriter (Writer 1)]
           @ WithReadTimeout 2 # [WithWriteTimeout 7, WithErrorWriter (Writer 2)]))) = 2
   \<and> list_all (keeps err) [WithReadTimeout 3, WithMaxHeaderBytes 5]
   \<and> err (server_New '':8080'' None
        ([] @ WithErrorWriter (Writer 1) # [] @ WithErrorWriter (Writer 2)
           # [WithReadTimeout 3, WithMaxHeaderBytes 5])) = Writer 2
   \<and> list_all (keeps (\<lambda>c. Timeout (Client c)))
       [WithJar None, WithTransport (Some (RoundTripper 1))]
   \<and> Timeout (Client (client_New
        ([] @ WithTimeout 1 # [WithTimeout 8] @ WithTimeout 2
           # [WithJar None, WithTransport (Some (RoundTripper 1))]))) = 2"
  using later_option_wins [where zs = "[WithWriteTimeout 7, WithErrorWriter (Writer 2)]"
          and a = "'':8080''" and h = None and xs = "[WithShutdown 9]" and da = 1
          and ys = "[WithReadTimeout 4, WithOutputWriter (Writer 1)]" and db = 2]
        later_option_wins [where zs = "[WithReadTimeout 3, WithMaxHeaderBytes 5]"
          and a = "'':8080''" and h = None and xs = "[]" and ys = "[]"
          and wa = "Writer 1" and wb = "Writer 2"]
        later_option_wins [where zs' = "[WithJar None, WithTransport (Some (RoundTripper 1))]"
          and xs' = "[]" and ys' = "[WithTimeout 8]" and da = 1 and db = 2]
  by (simp add: keeps_def WithWriteTimeout_def WithErrorWriter_def WithReadTimeout_def
        WithMaxHeaderBytes_def WithJar_def WithTransport_def)

text \<open>
  C9: whatever sequence of recognized options the supervisor is constructed with, the
  engine's address is the address supplied and its handler the handler supplied; so is the
  supervisor's own copy of the address.
\<close>

theorem recognized_options_keep_addr_handler:
  "\<forall>opt\<in>set opts. recognized opt \<Longrightarrow>
     http_Addr (server (server_New a h opts)) = a
     \<and> http_Handler (server (server_New a h opts)) = h
     \<and> addr (server_New a h opts) = a"
  unfolding server_New_def using apply_opts_recognized [of opts] by simp

theorem recognized_options_keep_addr_handler_witness:
  "list_all recognized
     [WithReadTimeout 1, WithWriteTimeout 2, WithShutdown 3, WithMaxHeaderBytes 4,
      WithOutputWriter (Writer 1), WithErrorWriter (Writer 2), WithReadTimeout 5]
   \<and> http_Addr (server (server_New '':8080'' (Some (Handler 1))
        [WithReadTimeout 1, WithWriteTimeout 2, WithShutdown 3, WithMaxHeaderBytes 4,
         WithOutputWriter (Writer 1), WithErrorWriter (Writer 2), WithReadTimeout 5]))
       = '':8080''
   \<and> http_Handler (server (server_New '':8080'' (Some (Handler 1))
        [WithReadTimeout 1, WithWriteTimeout 2, WithShutdown 3, WithMaxHeaderBytes 4,
         WithOutputWriter (Writer 1), WithErrorWriter (Writer 2), WithReadTimeout 5]))
       = Some (Handler 1)"
  using recognized_options_keep_addr_handler
    [of "[WithReadTimeout 1, WithWriteTimeout 2, WithShutdown 3, WithMaxHeaderBytes 4,
          WithOutputWriter (Writer 1), WithErrorWriter (Writer 2), WithReadTimeout 5]"
        "'':8080''" "Some (Handler 1)"]
  by (simp add: recognized.intros)

text \<open>
  C10: two recognized options on distinct fields commute. For each of the fifteen pairs of
  distinct fields among read timeout, write timeout, shutdown grace period, max header
  bytes, output writer and error writer, supplying the two options in either order, next to
  each other among any options \<open>xs\<close> before and \<open>ys\<close> after (none, in particular),
  constructs the same supervisor.
\<close>

theorem options_on_distinct_fields_commute:
  fixes r w g :: Duration and n :: int and u v :: Writer
  shows
  "server_New a h (xs @ [WithReadTimeout r, WithWriteTimeout w] @ ys)
     = server_New a h (xs @ [WithWriteTimeout w, WithReadTimeout r] @ ys)
   \<and> server_New a h (xs @ [WithReadTimeout r, WithShutdown g] @ ys)
     = server_New a h (xs @ [WithShutdown g, WithReadTimeout r] @ ys)
   \<and> server_New a h (xs @ [WithReadTimeout r, WithMaxHeaderBytes n] @ ys)
     = server_New a h (xs @ [WithMaxHeaderBytes n, WithReadTimeout r] @ ys)
   \<and> server_New a h (xs @ [WithReadTimeout r, WithOutputWriter u] @ ys)
     = server_New a h (xs @ [WithOutputWriter u, WithReadTimeout r] @ ys)
   \<and> server_New a h (xs @ [WithReadTimeout r, WithErrorWriter v] @ ys)
     = server_New a h (xs @ [WithErrorWriter v, WithReadTimeout r] @ ys)
   \<and> server_New a h (xs @ [WithWriteTimeout w, WithShutdown g] @ ys)
     = server_New a h (xs @ [WithShutdown g, WithWriteTimeout w] @ ys)
   \<and> server_New a h (xs @ [WithWriteTimeout w, WithMaxHeaderBytes n] @ ys)
     = server_New a h (xs @ [WithMaxHeaderBytes n, WithWriteTimeout w] @ ys)
   \<and> server_New a h (xs @ [WithWriteTimeout w, WithOutputWriter u] @ ys)
     = server_New a h (xs @ [WithOutputWriter u, WithWriteTimeout w] @ ys)
   \<and> server_New a h (xs @ [WithWriteTimeout w, WithErrorWriter v] @ ys)
     = server_New a h (xs @ [WithErrorWriter v, WithWriteTimeout w] @ ys)
   \<and> server_New a h (xs @ [WithShutdown g, WithMaxHeaderBytes n] @ ys)
     = server_New a h (xs @ [WithMaxHeaderBytes n, WithShutdown g] @ ys)
   \<and> server_New a h (xs @ [WithShutdown g, WithOutputWriter u] @ ys)
     = server_New a h (xs @ [WithOutputWriter u, WithShutdown g] @ ys)
   \<and> server_New a h (xs @ [WithShutdown g, WithErrorWriter v] @ ys)
     = server_New a h (xs @ [WithErrorWriter v, WithShutdown g] @ ys)
   \<and> server_New a h (xs @ [WithMaxHeaderBytes n, WithOutputWriter u] @ ys)
     = server_New a h (xs @ [WithOutputWriter u, WithMaxHeaderBytes n] @ ys)
   \<and> server_New a h (xs @ [WithMaxHeaderBytes n, WithErrorWriter v] @ ys)
     = server_New a h (xs @ [WithErrorWriter v, WithMaxHeaderBytes n] @ ys)
   \<and> server_New a h (xs @ [WithOutputWriter u, WithErrorWriter v] @ ys)
     = server_New a h (xs @ [WithErrorWriter v, WithOutputWriter u] @ ys)"
  unfolding server_New_def
  by (intro conjI swap_adjacent)
     (simp_all add: WithReadTimeout_def WithWriteTimeout_def WithShutdown_def
        WithMaxHeaderBytes_def WithOutputWriter_def WithErrorWriter_def)

text \<open>Two options on the same field do not commute: the later one wins.\<close>

lemma same_field_options_do_not_commute:
  "server_New a h [WithReadTimeout 1, WithReadTimeout 2]
     \<noteq> server_New a h [WithReadTimeout 2, WithReadTimeout 1]"
  by (simp add: server_New_def WithReadTimeout_def)

section \<open>The run call\<close>

subsection \<open>How the run call ends\<close>

lemma result_wait_and_return:
  "result (wait_and_return w es)
     = (case http_ListenAndServe w of Blocks \<Rightarrow> Blocks | Returns _ \<Rightarrow> Returns None)"
  by (simp add: wait_and_return_def split: completion.split)

lemma events_wait_and_return:
  "events (wait_and_return w es)
     = es @ (case http_ListenAndServe w of
               Blocks \<Rightarrow> [wg_Wait]
             | Returns _ \<Rightarrow> [wg_Wait, cancel])"
  by (simp add: wait_and_return_def split: completion.split)

lemma result_ListenAndServe:
  "result (ListenAndServe s w) =
     (case signal w of
        Blocks \<Rightarrow> Blocks
      | Returns _ \<Rightarrow>
          (if http_Shutdown w \<noteq> None \<and> http_Close w \<noteq> None then Returns (http_Close w)
           else case http_ListenAndServe w of
                  Blocks \<Rightarrow> Blocks
                | Returns _ \<Rightarrow> Returns None))"
  by (auto simp add: ListenAndServe_def Let_def result_wait_and_return
      split: completion.split option.split)

text \<open>
  C1: the run call returns a non-nil error exactly when a signal was received, the graceful
  drain failed and the forced close failed too, and the error returned is then the one of
  the forced close. In every other execution in which the signal is received and the serve
  loop terminates (with whatever error), the run call returns nil: when the drain succeeds,
  and when the drain fails and the forced close succeeds.
\<close>

theorem run_error_is_close_error:
  "(result (ListenAndServe s w) = Returns (Some e)
      \<longleftrightarrow> signal w \<noteq> Blocks \<and> http_Shutdown w \<noteq> None \<and> http_Close w = Some e)
   \<and> (signal w \<noteq> Blocks \<and> http_ListenAndServe w \<noteq> Blocks
        \<and> (http_Shutdown w = None \<or> http_Close w = None)
      \<longrightarrow> result (ListenAndServe s w) = Returns None)"
  by (auto simp add: result_ListenAndServe split: completion.split)

theorem run_error_is_close_error_witness:
  "result (ListenAndServe (server_New '':8080'' None [])
      \<lparr>signal = Returns SIGTERM,
       http_ListenAndServe = Returns (New_error ''http: Server closed''),
       http_Shutdown = Some (New_error ''context deadline exceeded''),
       http_Close = Some (New_error ''close tcp: file already closed'')\<rparr>)
     = Returns (Some (New_error ''close tcp: file already closed''))
   \<and> result (ListenAndServe (server_New '':8080'' None [])
      \<lparr>signal = Returns SIGTERM,
       http_ListenAndServe = Returns (New_error ''http: Server closed''),
       http_Shutdown = Some (New_error ''context deadline exceeded''),
       http_Close = None\<rparr>)
     = Returns None
   \<and> result (ListenAndServe (server_New '':8080'' None [])
      \<lparr>signal = Returns SIGINT,
       http_ListenAndServe =
         Returns (New_error ''listen tcp :8080: bind: address already in use''),
       http_Shutdown = None,
       http_Close = None\<rparr>)
     = Returns None"
  using run_error_is_close_error [where e = "New_error ''close tcp: file already closed''"
          and s = "server_New '':8080'' None []"
          and w = "\<lparr>signal = Returns SIGTERM,
             http_ListenAndServe = Returns (New_error ''http: Server closed''),
             http_Shutdown = Some (New_error ''context deadline exceeded''),
             http_Close = Some (New_error ''close tcp: file already closed'')\<rparr>"]
        run_error_is_close_error [where s = "server_New '':8080'' None []"
          and w = "\<lparr>signal = Returns SIGTERM,
             http_ListenAndServe = Returns (New_error ''http: Server closed''),
             http_Shutdown = Some (New_error ''context deadline exceeded''),
             http_Close = None\<rparr>"]
        run_error_is_close_error [where s = "server_New '':8080'' None []"
          and w = "\<lparr>signal = Returns SIGINT,
             http_ListenAndServe =
               Returns (New_error ''listen tcp :8080: bind: address already in use''),
             http_Shutdown = None,
             http_Close = None\<rparr>"]
  by simp

subsection \<open>Joining the serve unit\<close>




subsection \<open>What is written\<close>

text \<open>
  C3: when a signal has been received and the graceful drain returns an error (its deadline
  exceeded, or any other), the run call, right after the call of \<^verbatim>\<open>Shutdown\<close>, writes
  to the error writer with the format \<^verbatim>\<open>shutdown timed out after %s: %v\<close>, the
  configured grace period and the drain's error, and its next call is the forced close.
\<close>

theorem drain_failure_reported_then_closed:
  "signal w = Returns sg \<Longrightarrow> http_Shutdown w = Some e \<Longrightarrow>
     sublist
       [server_Shutdown,
        Fprintf (err s) ''shutdown timed out after %s: %v'' [Dur (shutdown s), Err e],
        server_Close]
       (events (ListenAndServe s w))"
proof -
  assume sg: "signal w = Returns sg" and e: "http_Shutdown w = Some e"
  let ?mid = "[server_Shutdown,
        Fprintf (err s) ''shutdown timed out after %s: %v'' [Dur (shutdown s), Err e],
        server_Close]"
  let ?pre = "[log_Trace ''f4/http/server/Server.ListenAndServe'', wg_Add 1, Go,
          signal_Notify [os_Interrupt, SIGINT, SIGTERM], Receive,
          context_WithTimeout (shutdown s)]"
  have "\<exists>post. events (ListenAndServe s w) = ?pre @ ?mid @ post"
    using sg e
    by (simp add: ListenAndServe_def Let_def events_wait_and_return
        split: completion.split option.split)
  then show ?thesis
    unfolding sublist_def by blast
qed

theorem drain_failure_reported_then_closed_witness:
  "signal \<lparr>signal = Returns SIGTERM,
       http_ListenAndServe = Returns (New_error ''http: Server closed''),
       http_Shutdown = Some (New_error ''context deadline exceeded''),
       http_Close = None\<rparr> = Returns SIGTERM
   \<and> http_Shutdown \<lparr>signal = Returns SIGTERM,
       http_ListenAndServe = Returns (New_error ''http: Server closed''),
       http_Shutdown = Some (New_error ''context deadline exceeded''),
       http_Close = None\<rparr> = Some (New_error ''context deadline exceeded'')
   \<and> sublist
       [server_Shutdown,
        Fprintf os_Stderr ''shutdown timed out after %s: %v''
          [Dur 5000000000, Err (New_error ''context deadline exceeded'')],
        server_Close]
       (events (ListenAndServe (server_New '':8080'' None [])
          \<lparr>signal = Returns SIGTERM,
           http_ListenAndServe = Returns (New_error ''http: Server closed''),
           http_Shutdown = Some (New_error ''context deadline exceeded''),
           http_Close = None\<rparr>))"
  using drain_failure_reported_then_closed [where sg = SIGTERM
          and e = "New_error ''context deadline exceeded''"
          and s = "server_New '':8080'' None []"
          and w = "\<lparr>signal = Returns SIGTERM,
             http_ListenAndServe = Returns (New_error ''http: Server closed''),
             http_Shutdown = Some (New_error ''context deadline exceeded''),
             http_Close = None\<rparr>"]
  by (simp add: server_New_def ShutdownTimeout_def Second_def)

text \<open>
  The error the serve loop terminates with is not what the run call returns: the run call
  ends the same way whichever error that is, and an error it does return is the one of the
  forced close.
\<close>

lemma serve_error_not_returned:
  "result (ListenAndServe s (w\<lparr>http_ListenAndServe := Returns e\<rparr>))
     = result (ListenAndServe s (w\<lparr>http_ListenAndServe := Returns e'\<rparr>))
   \<and> (result (ListenAndServe s w) = Returns (Some x) \<longrightarrow> http_Close w = Some x)"
  by (auto simp add: result_ListenAndServe split: completion.splits)

text \<open>An error text without a percent sign is written as it is.\<close>

lemma Sprintf_no_operands_plain:
  "CHR ''%'' \<notin> set f \<Longrightarrow> Sprintf_no_operands f = Some f"
  by (induction f rule: Sprintf_no_operands.induct) auto

text \<open>
  C4: the serve unit is to write the terminal error of the serve loop to the error writer.
  It passes the text of the error to \<^verbatim>\<open>fmt.Fprintf\<close> as the format, with no operands.
  For the supervisor of \<^verbatim>\<open>New("%d", nil)\<close> the serve loop, started by the run call,
  fails at once with \<^verbatim>\<open>listen tcp: address %d: missing port in address\<close>, and what
  the error writer receives is \<^verbatim>\<open>listen tcp: address %!d(MISSING): missing port in address\<close>.
\<close>

theorem serve_error_text_used_as_format:
  "serve_unit (server_New ''%d'' None [])
      \<lparr>signal = Returns SIGINT,
       http_ListenAndServe =
         Returns (New_error ''listen tcp: address %d: missing port in address''),
       http_Shutdown = None,
       http_Close = None\<rparr>
     = [Fprintf os_Stdout ''listening on %s...\<newline>'' [Str ''%d''], server_ListenAndServe,
        Fprintf os_Stderr ''listen tcp: address %d: missing port in address'' [], wg_Done]
   \<and> Sprintf_no_operands ''listen tcp: address %d: missing port in address''
     = Some ''listen tcp: address %!d(MISSING): missing port in address''
   \<and> Go \<in> set (events (ListenAndServe (server_New ''%d'' None [])
      \<lparr>signal = Returns SIGINT,
       http_ListenAndServe =
         Returns (New_error ''listen tcp: address %d: missing port in address''),
       http_Shutdown = None,
       http_Close = None\<rparr>))"
  by (simp add: serve_unit_def server_New_def ListenAndServe_def Let_def wait_and_return_def
      directive_char_def)

end
